theory Spec2Isabelle
  imports Main
begin

section \<open>JavaScript values\<close>

text \<open>
  The values that flow through \<^verbatim>\<open>Fetch.tsx\<close>: parameter values, request bodies, response
  payloads and cache keys. Strings are sequences of bytes (the UTF-8 form that the URL and
  JSON serialisers emit). Numbers are the integers, rendered in plain decimal, as
  \<^verbatim>\<open>String\<close> and \<^verbatim>\<open>JSON.stringify\<close> render an integer of magnitude below
  \<open>10\<^sup>2\<^sup>1\<close>; fractions, \<^verbatim>\<open>NaN\<close> and the exponent form of larger numbers are outside
  the model. An object is the list of its own enumerable entries, in the order
  \<^verbatim>\<open>Object.entries\<close> yields them.
\<close>

datatype jsval =
    JUndefined
  | JNull
  | JBool bool
  | JNum int
  | JStr string
  | JArr "jsval list"
  | JObj "(string \<times> jsval) list"

text \<open>\<^verbatim>\<open>v == null\<close>: true of \<^verbatim>\<open>null\<close> and \<^verbatim>\<open>undefined\<close> only.\<close>

fun nullish :: "jsval \<Rightarrow> bool" where
  "nullish JUndefined = True"
| "nullish JNull = True"
| "nullish _ = False"

text \<open>\<^verbatim>\<open>Array.isArray(v)\<close>.\<close>

fun isArray :: "jsval \<Rightarrow> bool" where
  "isArray (JArr _) = True"
| "isArray _ = False"

text \<open>The truth value of \<^verbatim>\<open>v\<close> in a condition (\<^verbatim>\<open>ToBoolean\<close>).\<close>

fun truthy :: "jsval \<Rightarrow> bool" where
  "truthy JUndefined = False"
| "truthy JNull = False"
| "truthy (JBool b) = b"
| "truthy (JNum n) = (n \<noteq> 0)"
| "truthy (JStr s) = (s \<noteq> [])"
| "truthy (JArr _) = True"
| "truthy (JObj _) = True"

subsection \<open>Rendering to text\<close>

definition digit :: "nat \<Rightarrow> char" where
  "digit n = ''0123456789ABCDEF'' ! n"

fun decimal :: "nat \<Rightarrow> string" where
  "decimal n = (if n < 10 then [digit n] else decimal (n div 10) @ [digit (n mod 10)])"

declare decimal.simps [simp del]

definition showInt :: "int \<Rightarrow> string" where
  "showInt i = (if i < 0 then CHR ''-'' # decimal (nat (- i)) else decimal (nat i))"

text \<open>\<^verbatim>\<open>xs.join(sep)\<close> on strings.\<close>

fun join :: "string \<Rightarrow> string list \<Rightarrow> string" where
  "join sep [] = []"
| "join sep [x] = x"
| "join sep (x # y # ys) = x @ sep @ join sep (y # ys)"

text \<open>
  \<^verbatim>\<open>String(v)\<close>. An array renders as its elements joined by commas, a nullish element as
  the empty string; a plain object renders as \<^verbatim>\<open>[object Object]\<close>.
\<close>

fun String :: "jsval \<Rightarrow> string" where
  "String JUndefined = ''undefined''"
| "String JNull = ''null''"
| "String (JBool b) = (if b then ''true'' else ''false'')"
| "String (JNum n) = showInt n"
| "String (JStr s) = s"
| "String (JArr xs) = join '','' (map (\<lambda>x. if nullish x then [] else String x) xs)"
| "String (JObj _) = ''[object Object]''"

section \<open>The key builder: \<^verbatim>\<open>buildQueryString\<close>\<close>

text \<open>
  \<^verbatim>\<open>URLSearchParams\<close> is the list of name-value pairs appended so far. Its
  \<^verbatim>\<open>toString\<close> is the \<^verbatim>\<open>application/x-www-form-urlencoded\<close> serialiser: a space
  becomes \<^verbatim>\<open>+\<close>, the bytes \<^verbatim>\<open>* - . _\<close>, digits and ASCII letters stay, every other byte
  becomes \<^verbatim>\<open>%HH\<close>.
\<close>

type_synonym URLSearchParams = "(string \<times> string) list"

definition append :: "URLSearchParams \<Rightarrow> string \<Rightarrow> string \<Rightarrow> URLSearchParams" where
  "append urlParams name v = urlParams @ [(name, v)]"

definition unreserved :: "char \<Rightarrow> bool" where
  "unreserved c \<longleftrightarrow>
     c \<in> set ''*-._0123456789ABCDEFGHIJKLMNOPQRSTUVWXYZabcdefghijklmnopqrstuvwxyz''"

definition encodeByte :: "char \<Rightarrow> string" where
  "encodeByte c =
     (if c = CHR '' '' then ''+''
      else if unreserved c then [c]
      else [CHR ''%'', digit (of_char c div 16), digit (of_char c mod 16)])"

definition urlencode :: "string \<Rightarrow> string" where
  "urlencode s = concat (map encodeByte s)"

definition toString :: "URLSearchParams \<Rightarrow> string" where
  "toString urlParams = join ''&'' (map (\<lambda>(name, v). urlencode name @ ''='' @ urlencode v) urlParams)"

text \<open>
  The callback of \<^verbatim>\<open>Object.entries(params).forEach\<close>, with the \<^verbatim>\<open>urlParams\<close> it
  mutates passed in and returned.
\<close>

fun appendEntry :: "URLSearchParams \<Rightarrow> string \<times> jsval \<Rightarrow> URLSearchParams" where
  "appendEntry urlParams (key, v) =
     (if nullish v then urlParams
      else (case v of
              JArr items \<Rightarrow>
                foldl (\<lambda>acc item. append acc key (String item)) urlParams
                  (filter (\<lambda>item. \<not> nullish item) items)
            | _ \<Rightarrow> append urlParams key (String v)))"

text \<open>
  \<^verbatim>\<open>buildQueryString(params)\<close>; \<open>None\<close> is a falsy \<^verbatim>\<open>params\<close> (the early
  \<^verbatim>\<open>return ""\<close>).
\<close>

definition buildQueryString :: "(string \<times> jsval) list option \<Rightarrow> string" where
  "buildQueryString params =
     (case params of
        None \<Rightarrow> []
      | Some entries \<Rightarrow> toString (foldl appendEntry [] entries))"

section \<open>The request executor: \<^verbatim>\<open>makeFetchRequest\<close>\<close>

subsection \<open>\<^verbatim>\<open>JSON.stringify\<close>\<close>

definition lowerHex :: "nat \<Rightarrow> char" where
  "lowerHex n = ''0123456789abcdef'' ! n"

definition escapeChar :: "char \<Rightarrow> string" where
  "escapeChar c =
     (if c = CHR 0x22 then [CHR 0x5C, CHR 0x22]
      else if c = CHR 0x5C then [CHR 0x5C, CHR 0x5C]
      else if c = CHR 0x08 then [CHR 0x5C, CHR ''b'']
      else if c = CHR 0x0C then [CHR 0x5C, CHR ''f'']
      else if c = CHR 0x0A then [CHR 0x5C, CHR ''n'']
      else if c = CHR 0x0D then [CHR 0x5C, CHR ''r'']
      else if c = CHR 0x09 then [CHR 0x5C, CHR ''t'']
      else if (of_char c :: nat) < 32
        then [CHR 0x5C, CHR ''u'', CHR ''0'', CHR ''0'',
              lowerHex (of_char c div 16), lowerHex (of_char c mod 16)]
      else [c])"

definition quote :: "string \<Rightarrow> string" where
  "quote s = [CHR 0x22] @ concat (map escapeChar s) @ [CHR 0x22]"

text \<open>
  The text of a value inside an array or object. \<^verbatim>\<open>undefined\<close> is \<^verbatim>\<open>null\<close> as an array
  element and is left out as a property value.
\<close>

fun serialize :: "jsval \<Rightarrow> string"
  and serializeItems :: "jsval list \<Rightarrow> string list"
  and serializeMembers :: "(string \<times> jsval) list \<Rightarrow> string list" where
  "serialize JUndefined = ''null''"
| "serialize JNull = ''null''"
| "serialize (JBool b) = (if b then ''true'' else ''false'')"
| "serialize (JNum n) = showInt n"
| "serialize (JStr s) = quote s"
| "serialize (JArr xs) = ''['' @ join '','' (serializeItems xs) @ '']''"
| "serialize (JObj ms) = ''{'' @ join '','' (serializeMembers ms) @ ''}''"
| "serializeItems [] = []"
| "serializeItems (x # xs) = serialize x # serializeItems xs"
| "serializeMembers [] = []"
| "serializeMembers ((k, v) # ms) =
     (if v = JUndefined then serializeMembers ms
      else (quote k @ '':'' @ serialize v) # serializeMembers ms)"

text \<open>\<^verbatim>\<open>JSON.stringify(v)\<close>; \<open>None\<close> is the result \<^verbatim>\<open>undefined\<close>.\<close>

definition JSON_stringify :: "jsval \<Rightarrow> string option" where
  "JSON_stringify v = (if v = JUndefined then None else Some (serialize v))"

subsection \<open>Requests, responses and errors\<close>

text \<open>The arguments of one \<^verbatim>\<open>fetch(input, init)\<close> call.\<close>

record request =
  req_input :: string
  req_method :: string
  req_headers :: "(string \<times> string) list"
  req_body :: "string option"

text \<open>
  What the executor reads of a \<^verbatim>\<open>Response\<close>: the status, the \<^verbatim>\<open>content-type\<close> header
  (\<open>None\<close> when \<^verbatim>\<open>headers.get\<close> gives \<^verbatim>\<open>null\<close>), and the outcome of its two body
  readers, \<^verbatim>\<open>text()\<close> and \<^verbatim>\<open>json()\<close> (\<open>Inl\<close> the message of the parser's
  \<^verbatim>\<open>SyntaxError\<close>).
\<close>

record response =
  status :: nat
  content_type :: "string option"
  body_text :: string
  body_json :: "string + jsval"

text \<open>\<^verbatim>\<open>response.ok\<close>: the status is in the range 200 to 299.\<close>

definition ok :: "response \<Rightarrow> bool" where
  "ok r \<longleftrightarrow> 200 \<le> status r \<and> status r \<le> 299"

text \<open>Thrown values, by constructor, each with its message.\<close>

datatype error = Error string | SyntaxError string | TypeError string

fun message :: "error \<Rightarrow> string" where
  "message (Error m) = m"
| "message (SyntaxError m) = m"
| "message (TypeError m) = m"

definition BASE_URL :: string where
  "BASE_URL = ''http://localhost:8000''"

fun startsWith :: "string \<Rightarrow> string \<Rightarrow> bool" where
  "startsWith s [] = True"
| "startsWith [] (d # ds) = False"
| "startsWith (c # cs) (d # ds) = (c = d \<and> startsWith cs ds)"

text \<open>\<^verbatim>\<open>s.includes(sub)\<close>.\<close>

fun str_includes :: "string \<Rightarrow> string \<Rightarrow> bool" where
  "str_includes [] sub = (sub = [])"
| "str_includes (c # cs) sub = (startsWith (c # cs) sub \<or> str_includes cs sub)"

text \<open>
  \<^verbatim>\<open>!contentType || !contentType.includes("application/json")\<close>; a \<^verbatim>\<open>null\<close> and an
  empty header value are both falsy.
\<close>

definition notJson :: "string option \<Rightarrow> bool" where
  "notJson contentType =
     (case contentType of
        None \<Rightarrow> True
      | Some c \<Rightarrow> c = [] \<or> \<not> str_includes c ''application/json'')"

text \<open>The two arguments that \<^verbatim>\<open>makeFetchRequest\<close> passes to \<^verbatim>\<open>fetch\<close>.\<close>

definition fetchArgs ::
  "string \<Rightarrow> string \<Rightarrow> (string \<times> jsval) list option \<Rightarrow> jsval \<Rightarrow> request" where
  "fetchArgs url method params body =
     \<lparr> req_input =
         (case params of
            Some entries \<Rightarrow> BASE_URL @ url @ ''?'' @ buildQueryString params
          | None \<Rightarrow> BASE_URL @ url),
       req_method = method,
       req_headers = [(''Content-Type'', ''application/json''), (''Accept'', ''application/json'')],
       req_body = (if truthy body then JSON_stringify body else None) \<rparr>"

text \<open>The messages of the two errors that the executor throws itself.\<close>

definition HttpError :: "nat \<Rightarrow> string \<Rightarrow> error" where
  "HttpError st txt = Error (''HTTP error! status: '' @ showInt (int st) @ '', body: '' @ txt)"

definition UnexpectedContentTypeError :: "string option \<Rightarrow> string \<Rightarrow> error" where
  "UnexpectedContentTypeError ct txt =
     Error (''Expected JSON response but got '' @ (case ct of None \<Rightarrow> ''null'' | Some c \<Rightarrow> c)
            @ '', body: '' @ txt)"

text \<open>
  \<^verbatim>\<open>makeFetchRequest(url, method, params, body)\<close>, over the transport \<open>fetch\<close>. A rejected
  promise or a \<^verbatim>\<open>throw\<close> is \<open>Inl\<close>; an absent \<^verbatim>\<open>params\<close> is \<open>None\<close>, an absent
  \<^verbatim>\<open>body\<close> is \<open>JUndefined\<close>.
\<close>

definition makeFetchRequest ::
  "(request \<Rightarrow> error + response) \<Rightarrow> string \<Rightarrow> string \<Rightarrow> (string \<times> jsval) list option
     \<Rightarrow> jsval \<Rightarrow> error + jsval" where
  "makeFetchRequest fetch url method params body =
     (case fetch (fetchArgs url method params body) of
        Inl e \<Rightarrow> Inl e
      | Inr response \<Rightarrow>
          if \<not> ok response
          then Inl (HttpError (status response) (body_text response))
          else if notJson (content_type response)
          then Inl (UnexpectedContentTypeError (content_type response) (body_text response))
          else (case body_json response of
                  Inl m \<Rightarrow> Inl (SyntaxError m)
                | Inr payload \<Rightarrow> Inr payload))"

section \<open>The orchestrator: \<^verbatim>\<open>Fetch\<close>\<close>

subsection \<open>React nodes\<close>

text \<open>
  An element is its type (an intrinsic tag or a component, by name) and its props; a prop
  holds a plain value or an \<^verbatim>\<open>Error\<close>. A \<^verbatim>\<open>ReactNode\<close> is an element or one of the
  primitive nodes.
\<close>

datatype ctype = Host string | Component string

datatype propval = Val jsval | Err error

datatype element = Element ctype "(string \<times> propval) list"

datatype node = NNull | NBool bool | NNum int | NText string | NElem element

fun nodeTruthy :: "node \<Rightarrow> bool" where
  "nodeTruthy NNull = False"
| "nodeTruthy (NBool b) = b"
| "nodeTruthy (NNum n) = (n \<noteq> 0)"
| "nodeTruthy (NText s) = (s \<noteq> [])"
| "nodeTruthy (NElem e) = True"

text \<open>\<^verbatim>\<open>{...props, [k]: v}\<close>: an existing entry is overwritten in place, a new one goes last.\<close>

fun setProp :: "(string \<times> propval) list \<Rightarrow> string \<Rightarrow> propval \<Rightarrow> (string \<times> propval) list" where
  "setProp [] k v = [(k, v)]"
| "setProp ((k', v') # ps) k v = (if k' = k then (k, v) # ps else (k', v') # setProp ps k v)"

text \<open>\<^verbatim>\<open>React.cloneElement(element, { error })\<close>.\<close>

fun cloneElement :: "element \<Rightarrow> error \<Rightarrow> element" where
  "cloneElement (Element t ps) e = Element t (setProp ps ''error'' (Err e))"

text \<open>
  The \<^verbatim>\<open>ErrorComponent\<close> prop: a ready-made element (\<^verbatim>\<open>React.isValidElement\<close> holds) or
  a component type.
\<close>

datatype error_component = IsElement element | IsComponent ctype

fun renderError :: "error_component \<Rightarrow> error \<Rightarrow> node" where
  "renderError (IsElement el) e = NElem (cloneElement el e)"
| "renderError (IsComponent c) e = NElem (Element c [(''error'', Err e)])"

definition DefaultError :: ctype where
  "DefaultError = Component ''DefaultError''"

text \<open>What the function component \<^verbatim>\<open>DefaultError\<close> returns when React calls it.\<close>

definition DefaultError_body :: "error \<Rightarrow> node" where
  "DefaultError_body e =
     NElem (Element (Host ''div'')
       [(''style'', Val (JObj [(''color'', JStr ''red'')])),
        (''children'', Val (JArr [JStr ''Error: '', JStr (message e)]))])"

subsection \<open>The query engine\<close>

text \<open>
  The options object given to \<^verbatim>\<open>useQuery\<close> and \<^verbatim>\<open>useQueries\<close>: the two fields that
  \<^verbatim>\<open>Fetch\<close> writes, and the rest of the caller's options. \<open>None\<close> is a missing (nullish)
  field.
\<close>

record query_options =
  queryKey :: "jsval list option"
  queryFn :: "(unit \<Rightarrow> error + jsval) option"
  rest :: "(string \<times> jsval) list"

text \<open>The three fields that \<^verbatim>\<open>Fetch\<close> reads of a query result; \<open>None\<close> is a \<^verbatim>\<open>null\<close> error.\<close>

record query_result =
  data :: jsval
  error :: "error option"
  isLoading :: bool

text \<open>
  The collaborators that \<^verbatim>\<open>Fetch\<close> calls and this repository does not contain: the two
  hooks of the query engine, each giving the result it currently holds for the options,
  and the transport.
\<close>

record env =
  useQuery :: "query_options \<Rightarrow> query_result"
  useQueries :: "query_options list \<Rightarrow> query_result list"
  fetch :: "request \<Rightarrow> error + response"

text \<open>
  The state of a slot as the specification names it, and the result object with which the
  engine presents it.
\<close>

datatype FetchState = Loading | Failed error | Succeeded jsval

fun slot :: "FetchState \<Rightarrow> query_result" where
  "slot Loading = \<lparr> data = JUndefined, error = None, isLoading = True \<rparr>"
| "slot (Failed e) = \<lparr> data = JUndefined, error = Some e, isLoading = False \<rparr>"
| "slot (Succeeded d) = \<lparr> data = d, error = None, isLoading = False \<rparr>"

subsection \<open>Cache keys\<close>

text \<open>\<^verbatim>\<open>{...queryOptions}\<close>: spreading \<^verbatim>\<open>undefined\<close> gives no field.\<close>

definition spread :: "query_options option \<Rightarrow> query_options" where
  "spread qo =
     (case qo of
        None \<Rightarrow> \<lparr> queryKey = None, queryFn = None, rest = [] \<rparr>
      | Some q \<Rightarrow> q)"

text \<open>The array \<^verbatim>\<open>[url, method, params, body]\<close>.\<close>

definition derivedKey ::
  "string \<Rightarrow> string \<Rightarrow> (string \<times> jsval) list option \<Rightarrow> jsval \<Rightarrow> jsval list" where
  "derivedKey url method params body =
     [JStr url, JStr method, (case params of None \<Rightarrow> JUndefined | Some entries \<Rightarrow> JObj entries),
      body]"

text \<open>The options of the single-resource query (the argument of \<^verbatim>\<open>useQuery\<close>).\<close>

definition singleOptions ::
  "(request \<Rightarrow> error + response) \<Rightarrow> query_options option \<Rightarrow> string \<Rightarrow> string
     \<Rightarrow> (string \<times> jsval) list option \<Rightarrow> jsval \<Rightarrow> query_options" where
  "singleOptions transport queryOptions url method params body =
     (spread queryOptions)
       \<lparr> queryKey :=
           Some (case (case queryOptions of None \<Rightarrow> None | Some q \<Rightarrow> queryKey q) of
                   Some k \<Rightarrow> k
                 | None \<Rightarrow> derivedKey url method params body),
         queryFn := Some (\<lambda>_. makeFetchRequest transport url method params body) \<rparr>"

text \<open>The options of one slot of the multi-resource query (the callback of \<^verbatim>\<open>urls.map\<close>).\<close>

definition slotOptions ::
  "(request \<Rightarrow> error + response) \<Rightarrow> query_options option \<Rightarrow> string
     \<Rightarrow> (string \<times> jsval) list option \<Rightarrow> jsval \<Rightarrow> string \<Rightarrow> query_options" where
  "slotOptions transport queryOptions method params body url =
     (spread queryOptions)
       \<lparr> queryKey := Some (derivedKey url method params body),
         queryFn := Some (\<lambda>_. makeFetchRequest transport url method params body) \<rparr>"

subsection \<open>Aggregation and presentation\<close>

text \<open>\<^verbatim>\<open>xs.some(p)\<close> and \<^verbatim>\<open>xs.every(p)\<close>, stopping at the first element that decides.\<close>

fun some :: "('a \<Rightarrow> bool) \<Rightarrow> 'a list \<Rightarrow> bool" where
  "some p [] = False"
| "some p (x # xs) = (if p x then True else some p xs)"

fun every :: "('a \<Rightarrow> bool) \<Rightarrow> 'a list \<Rightarrow> bool" where
  "every p [] = True"
| "every p (x # xs) = (if p x then every p xs else False)"

definition aggregateLoading :: "bool \<Rightarrow> query_result list \<Rightarrow> bool" where
  "aggregateLoading waitForAll results =
     (if waitForAll then some isLoading results else every isLoading results)"

text \<open>\<^verbatim>\<open>results.find((r) => r.error)?.error\<close>; an \<^verbatim>\<open>Error\<close> object is truthy.\<close>

definition aggregateError :: "query_result list \<Rightarrow> error option" where
  "aggregateError results =
     (case find (\<lambda>r. error r \<noteq> None) results of
        None \<Rightarrow> None
      | Some r \<Rightarrow> error r)"

text \<open>
  The three-way choice that ends each mode of \<^verbatim>\<open>Fetch\<close>. The result carries the return
  statement that produced it beside the node returned.
\<close>

datatype branch = ErrorView | LoadingView | SuccessView

definition present ::
  "error_component \<Rightarrow> node \<Rightarrow> (jsval \<Rightarrow> node) \<Rightarrow> error option \<Rightarrow> bool \<Rightarrow> jsval
     \<Rightarrow> branch \<times> node" where
  "present ErrorComponent LoadingComponent children err loading d =
     (case err of
        Some e \<Rightarrow> (ErrorView, renderError ErrorComponent e)
      | None \<Rightarrow>
          if loading \<and> nodeTruthy LoadingComponent then (LoadingView, LoadingComponent)
          else (SuccessView, children d))"

subsection \<open>The component\<close>

datatype http_method = GET | POST | PUT | DELETE

fun methodName :: "http_method \<Rightarrow> string" where
  "methodName GET = ''GET''"
| "methodName POST = ''POST''"
| "methodName PUT = ''PUT''"
| "methodName DELETE = ''DELETE''"

text \<open>\<^verbatim>\<open>FetchProps\<close>; \<open>None\<close> (for \<^verbatim>\<open>body\<close>, \<open>JUndefined\<close>) is a prop that is not passed.\<close>

record props =
  url :: "string option"
  urls :: "string list option"
  "method" :: "http_method option"
  params :: "(string \<times> jsval) list option"
  body :: jsval
  queryOptions :: "query_options option"
  children :: "jsval \<Rightarrow> node"
  LoadingComponent :: "node option"
  ErrorComponent :: "error_component option"
  waitForAll :: "bool option"

text \<open>The default values of the destructured props.\<close>

definition methodOf :: "props \<Rightarrow> string" where
  "methodOf p = methodName (case method p of None \<Rightarrow> GET | Some m \<Rightarrow> m)"

definition loadingOf :: "props \<Rightarrow> node" where
  "loadingOf p =
     (case LoadingComponent p of
        None \<Rightarrow> NElem (Element (Host ''div'') [(''children'', Val (JStr ''Loading...''))])
      | Some n \<Rightarrow> n)"

definition errorOf :: "props \<Rightarrow> error_component" where
  "errorOf p = (case ErrorComponent p of None \<Rightarrow> IsComponent DefaultError | Some c \<Rightarrow> c)"

definition waitOf :: "props \<Rightarrow> bool" where
  "waitOf p = (case waitForAll p of None \<Rightarrow> False | Some b \<Rightarrow> b)"

text \<open>The three modes, each the body of one \<^verbatim>\<open>if\<close> of \<^verbatim>\<open>Fetch\<close>.\<close>

definition fetchSingle :: "env \<Rightarrow> props \<Rightarrow> string \<Rightarrow> branch \<times> node" where
  "fetchSingle E p u =
     (let r = useQuery E (singleOptions (fetch E) (queryOptions p) u (methodOf p) (params p) (body p))
      in present (errorOf p) (loadingOf p) (children p) (error r) (isLoading r) (data r))"

definition fetchMulti :: "env \<Rightarrow> props \<Rightarrow> string list \<Rightarrow> branch \<times> node" where
  "fetchMulti E p us =
     (let results =
            useQueries E
              (map (slotOptions (fetch E) (queryOptions p) (methodOf p) (params p) (body p)) us)
      in present (errorOf p) (loadingOf p) (children p) (aggregateError results)
           (aggregateLoading (waitOf p) results) (JArr (map data results)))"

definition fetchQuery :: "env \<Rightarrow> props \<Rightarrow> query_options \<Rightarrow> branch \<times> node" where
  "fetchQuery E p q =
     (let r = useQuery E q
      in present (errorOf p) (loadingOf p) (children p) (error r) (isLoading r) (data r))"

definition usageError :: error where
  "usageError = Error ''Fetch component requires either url, urls, or queryOptions prop''"

text \<open>
  \<^verbatim>\<open>Fetch(props)\<close>. The conditions are truth values: an empty \<^verbatim>\<open>url\<close> string is falsy,
  an empty \<^verbatim>\<open>urls\<close> array and any options object are truthy. The final \<^verbatim>\<open>throw\<close> is
  \<open>Inl\<close>.
\<close>

definition Fetch :: "env \<Rightarrow> props \<Rightarrow> error + branch \<times> node" where
  "Fetch E p =
     (case url p of
        Some (c # cs) \<Rightarrow> Inr (fetchSingle E p (c # cs))
      | _ \<Rightarrow>
          (case urls p of
             Some us \<Rightarrow> Inr (fetchMulti E p us)
           | None \<Rightarrow>
               (case queryOptions p of
                  Some q \<Rightarrow> Inr (fetchQuery E p q)
                | None \<Rightarrow> Inl usageError)))"

subsection \<open>Sample inputs\<close>

text \<open>
  An engine that holds the given results (the first of them for a single query, one per
  query for a batch) over a transport that is down, and props that pass nothing but the
  mode and a callback that prints its argument.
\<close>

definition engineOf :: "query_result list \<Rightarrow> env" where
  "engineOf rs =
     \<lparr> useQuery = (\<lambda>q. case rs of [] \<Rightarrow> slot Loading | r # _ \<Rightarrow> r),
       useQueries = (\<lambda>qs. take (length qs) rs),
       fetch = (\<lambda>req. Inl (TypeError ''Failed to fetch'')) \<rparr>"

definition propsOf :: "string option \<Rightarrow> string list option \<Rightarrow> query_options option \<Rightarrow> props" where
  "propsOf u us q =
     \<lparr> url = u, urls = us, method = None, params = None, body = JUndefined, queryOptions = q,
       children = (\<lambda>d. NText (String d)), LoadingComponent = None, ErrorComponent = None,
       waitForAll = None \<rparr>"

text \<open>A transport that answers every request with the given response.\<close>

definition respond :: "response \<Rightarrow> request \<Rightarrow> error + response" where
  "respond r req = Inr r"

section \<open>Properties of the aggregator\<close>

lemma Fetch_unfold:
  "Fetch E p =
     (if url p \<noteq> None \<and> url p \<noteq> Some [] then Inr (fetchSingle E p (the (url p)))
      else (case urls p of
              Some us \<Rightarrow> Inr (fetchMulti E p us)
            | None \<Rightarrow>
                (case queryOptions p of
                   Some q \<Rightarrow> Inr (fetchQuery E p q)
                 | None \<Rightarrow> Inl usageError)))"
  by (simp add: Fetch_def split: option.splits list.splits)

lemma some_iff: "some p xs \<longleftrightarrow> (\<exists>x\<in>set xs. p x)"
  by (induction xs) auto

lemma every_iff: "every p xs \<longleftrightarrow> (\<forall>x\<in>set xs. p x)"
  by (induction xs) auto

lemma isLoading_slot: "isLoading (slot s) \<longleftrightarrow> s = Loading"
  by (cases s) auto

text \<open>
  C1. Under \<^verbatim>\<open>waitForAll = true\<close> the aggregate is loading exactly when some slot is
  loading; under \<^verbatim>\<open>waitForAll = false\<close>, which is the default, exactly when every slot
  is loading. This holds of any sequence of query results, and so of the results that
  present any sequence of slot states.
\<close>

theorem aggregate_loading_policy:
  "(aggregateLoading True rs \<longleftrightarrow> (\<exists>r\<in>set rs. isLoading r))
   \<and> (aggregateLoading False rs \<longleftrightarrow> (\<forall>r\<in>set rs. isLoading r))
   \<and> (aggregateLoading True (map slot ss) \<longleftrightarrow> Loading \<in> set ss)
   \<and> (aggregateLoading False (map slot ss) \<longleftrightarrow> (\<forall>s\<in>set ss. s = Loading))
   \<and> (waitForAll p = None \<longrightarrow> waitOf p = False)"
  by (auto simp: aggregateLoading_def some_iff every_iff isLoading_slot waitOf_def)

theorem aggregate_loading_policy_witness:
  "aggregateLoading True [slot (Succeeded (JNum 1)), slot Loading]
   \<and> \<not> aggregateLoading False [slot (Succeeded (JNum 1)), slot Loading]
   \<and> aggregateLoading False [slot Loading, slot Loading]
   \<and> \<not> aggregateLoading True [slot (Succeeded (JNum 1)), slot (Failed (Error ''x''))]
   \<and> waitOf (propsOf None (Some [''/a'']) None) = False"
  using aggregate_loading_policy
      [of "[slot (Succeeded (JNum 1)), slot Loading]" "[Loading, Loading]"
        "propsOf None (Some [''/a'']) None"]
    aggregate_loading_policy [of "[]" "[Succeeded (JNum 1), Failed (Error ''x'')]"]
  by (simp add: propsOf_def)

lemma find_first:
  "\<forall>q\<in>set pre. \<not> P q \<Longrightarrow> P r \<Longrightarrow> find P (pre @ r # post) = Some r"
  by (induction pre) auto

lemma aggregateError_first:
  "\<forall>q\<in>set pre. error q = None \<Longrightarrow> error r = Some e
     \<Longrightarrow> aggregateError (pre @ r # post) = Some e"
  by (simp add: aggregateError_def find_first)

lemma Fetch_multi:
  "url p = None \<or> url p = Some [] \<Longrightarrow> urls p = Some us \<Longrightarrow> Fetch E p = Inr (fetchMulti E p us)"
  by (auto simp: Fetch_unfold)

text \<open>
  C2. In the multi-resource mode (no usable \<^verbatim>\<open>url\<close>, \<^verbatim>\<open>urls\<close> given), when some slot
  has failed, \<^verbatim>\<open>Fetch\<close> returns through its error branch the error view of the first
  failed slot in sequence order, whatever \<^verbatim>\<open>waitForAll\<close> is and whatever the other
  slots hold; the loading view and the callback's output are not returned. Stated for any
  results of the engine, and for the results that present a sequence of slot states.
\<close>

theorem first_failure_wins:
  assumes "url p = None \<or> url p = Some []" and "urls p = Some us"
    and "useQueries E
           (map (slotOptions (fetch E) (queryOptions p) (methodOf p) (params p) (body p)) us) = rs"
  shows "(rs = pre @ r # post \<and> (\<forall>q\<in>set pre. error q = None) \<and> error r = Some e
            \<longrightarrow> Fetch E p = Inr (ErrorView, renderError (errorOf p) e))
       \<and> (rs = map slot (before @ Failed e # after) \<and> (\<forall>s\<in>set before. \<forall>e'. s \<noteq> Failed e')
            \<longrightarrow> Fetch E p = Inr (ErrorView, renderError (errorOf p) e))"
proof -
  have multi: "Fetch E p = Inr (fetchMulti E p us)"
    using assms(1,2) by (rule Fetch_multi)
  have general: "Fetch E p = Inr (ErrorView, renderError (errorOf p) e)"
    if "rs = pre @ r # post" "\<forall>q\<in>set pre. error q = None" "error r = Some e" for pre r post
    using that assms(3) multi
    by (simp add: fetchMulti_def present_def aggregateError_first)
  have "error q = None"
    if "q \<in> set (map slot before)" "\<forall>s\<in>set before. \<forall>e'. s \<noteq> Failed e'" for q
  proof -
    from that obtain s where "s \<in> set before" "q = slot s" by auto
    with that(2) show ?thesis by (cases s) auto
  qed
  then have "Fetch E p = Inr (ErrorView, renderError (errorOf p) e)"
    if "rs = map slot (before @ Failed e # after)" "\<forall>s\<in>set before. \<forall>e'. s \<noteq> Failed e'"
    using that general [of "map slot before" "slot (Failed e)" "map slot after"] by simp
  with general show ?thesis by blast
qed

theorem first_failure_wins_witness:
  "Fetch (engineOf [slot (Failed (Error ''boom'')), slot (Succeeded (JNum 7))])
         (propsOf None (Some [''/a'', ''/b'']) None)
     = Inr (ErrorView, NElem (Element DefaultError [(''error'', Err (Error ''boom''))]))
   \<and> Fetch (engineOf [slot Loading, slot (Failed (Error ''late'')), slot (Failed (Error ''later''))])
         ((propsOf None (Some [''/a'', ''/b'', ''/c'']) None) \<lparr> waitForAll := Some True \<rparr>)
     = Inr (ErrorView, NElem (Element DefaultError [(''error'', Err (Error ''late''))]))"
  using first_failure_wins [of "propsOf None (Some [''/a'', ''/b'']) None" "[''/a'', ''/b'']"
      "engineOf [slot (Failed (Error ''boom'')), slot (Succeeded (JNum 7))]"
      "[slot (Failed (Error ''boom'')), slot (Succeeded (JNum 7))]"
      "[]" "slot (Failed (Error ''boom''))" "[slot (Succeeded (JNum 7))]" "Error ''boom''"
      "[]" "[Succeeded (JNum 7)]"]
    first_failure_wins
      [of "(propsOf None (Some [''/a'', ''/b'', ''/c'']) None) \<lparr> waitForAll := Some True \<rparr>"
      "[''/a'', ''/b'', ''/c'']"
      "engineOf [slot Loading, slot (Failed (Error ''late'')), slot (Failed (Error ''later''))]"
      "[slot Loading, slot (Failed (Error ''late'')), slot (Failed (Error ''later''))]"
      "[slot Loading]" "slot (Failed (Error ''late''))" "[slot (Failed (Error ''later''))]"
      "Error ''late''" "[Loading]" "[Failed (Error ''later'')]"]
  by (simp add: engineOf_def propsOf_def errorOf_def)

lemma aggregateError_none:
  "\<forall>r\<in>set rs. error r = None \<Longrightarrow> aggregateError rs = None"
  by (induction rs) (auto simp: aggregateError_def)

lemma data_slot:
  "data (slot s) = (case s of Succeeded d \<Rightarrow> d | _ \<Rightarrow> JUndefined)"
  by (cases s) auto

lemma error_slot_none: "(error (slot s) = None) \<longleftrightarrow> (\<forall>e. s \<noteq> Failed e)"
  by (cases s) auto

text \<open>
  C3. In the multi-resource mode, when no slot has failed and the aggregate is not loading
  under the wait policy in force, \<^verbatim>\<open>Fetch\<close> returns the callback's output for the array
  of the slots' data in the order of the results, which is the order of \<^verbatim>\<open>urls\<close>. For
  results that present slot states, the entry of a slot that succeeded is its payload and
  the entry of a slot still loading is \<^verbatim>\<open>undefined\<close>; so with \<^verbatim>\<open>waitForAll = false\<close>,
  a first slot succeeded with \<open>data1\<close> and a second one loading give the callback
  \<^verbatim>\<open>[data1, undefined]\<close>.
\<close>

theorem success_payloads_in_order:
  assumes "url p = None \<or> url p = Some []" and "urls p = Some us"
    and "useQueries E
           (map (slotOptions (fetch E) (queryOptions p) (methodOf p) (params p) (body p)) us) = rs"
  shows "((\<forall>r\<in>set rs. error r = None) \<and> \<not> aggregateLoading (waitOf p) rs
            \<longrightarrow> Fetch E p = Inr (SuccessView, children p (JArr (map data rs))))
       \<and> (rs = map slot ss \<and> (\<forall>s\<in>set ss. \<forall>e. s \<noteq> Failed e)
             \<and> \<not> aggregateLoading (waitOf p) rs
            \<longrightarrow> Fetch E p =
                  Inr (SuccessView,
                       children p
                         (JArr (map (\<lambda>s. case s of Succeeded d \<Rightarrow> d | _ \<Rightarrow> JUndefined) ss))))
       \<and> (rs = [slot (Succeeded data1), slot Loading] \<and> waitOf p = False
            \<longrightarrow> Fetch E p = Inr (SuccessView, children p (JArr [data1, JUndefined])))"
proof -
  have multi: "Fetch E p = Inr (fetchMulti E p us)"
    using assms(1,2) by (rule Fetch_multi)
  have general: "Fetch E p = Inr (SuccessView, children p (JArr (map data rs)))"
    if "\<forall>r\<in>set rs. error r = None" "\<not> aggregateLoading (waitOf p) rs"
    using that assms(3) multi
    by (simp add: fetchMulti_def present_def aggregateError_none)
  have states: "Fetch E p =
      Inr (SuccessView,
           children p (JArr (map (\<lambda>s. case s of Succeeded d \<Rightarrow> d | _ \<Rightarrow> JUndefined) ss)))"
    if "rs = map slot ss" "\<forall>s\<in>set ss. \<forall>e. s \<noteq> Failed e" "\<not> aggregateLoading (waitOf p) rs"
  proof -
    have "\<forall>r\<in>set rs. error r = None"
      using that(1,2) by (auto simp: error_slot_none)
    moreover have "map data rs = map (\<lambda>s. case s of Succeeded d \<Rightarrow> d | _ \<Rightarrow> JUndefined) ss"
      using that(1) by (simp add: data_slot)
    ultimately show ?thesis using general that(3) by simp
  qed
  have scenario: "Fetch E p = Inr (SuccessView, children p (JArr [data1, JUndefined]))"
    if "rs = [slot (Succeeded data1), slot Loading]" "waitOf p = False"
    using that general by (simp add: aggregateLoading_def)
  from general states scenario show ?thesis by blast
qed

theorem success_payloads_in_order_witness:
  "Fetch (engineOf [slot (Succeeded (JStr ''u'')), slot Loading])
         (propsOf None (Some [''/a'', ''/b'']) None)
     = Inr (SuccessView, NText ''u,'')
   \<and> Fetch (engineOf [slot (Succeeded (JStr ''u'')), slot (Succeeded (JStr ''v''))])
         ((propsOf None (Some [''/a'', ''/b'']) None) \<lparr> waitForAll := Some True \<rparr>)
     = Inr (SuccessView, NText ''u,v'')"
  using success_payloads_in_order [of "propsOf None (Some [''/a'', ''/b'']) None" "[''/a'', ''/b'']"
      "engineOf [slot (Succeeded (JStr ''u'')), slot Loading]"
      "[slot (Succeeded (JStr ''u'')), slot Loading]"
      "[Succeeded (JStr ''u''), Loading]" "JStr ''u''"]
    success_payloads_in_order
      [of "(propsOf None (Some [''/a'', ''/b'']) None) \<lparr> waitForAll := Some True \<rparr>"
      "[''/a'', ''/b'']"
      "engineOf [slot (Succeeded (JStr ''u'')), slot (Succeeded (JStr ''v''))]"
      "[slot (Succeeded (JStr ''u'')), slot (Succeeded (JStr ''v''))]"
      "[Succeeded (JStr ''u''), Succeeded (JStr ''v'')]" "JStr ''u''"]
  by (simp add: engineOf_def propsOf_def waitOf_def aggregateLoading_def)

section \<open>Properties of the presentation\<close>

text \<open>
  C7. The three-way choice returns exactly one of the error view, the loading view and the
  callback's output, by precedence: a set error gives the error view whatever else holds;
  otherwise a loading state with a truthy loading view gives that view; otherwise the
  callback is applied to the data. On a slot state: failed gives the error view, loading
  gives the loading view (the callback on \<^verbatim>\<open>undefined\<close> when the loading view is falsy),
  succeeded gives the callback's output. The branch depends on the error and the loading
  flag alone, so resolving an unchanged state again takes the same branch. Each of the
  three modes of \<^verbatim>\<open>Fetch\<close> ends in this choice, on the single or the aggregate state.
\<close>

theorem presentation_precedence:
  "(err = Some e \<longrightarrow> present EC LC ch err loading d = (ErrorView, renderError EC e))
   \<and> (err = None \<and> loading \<and> nodeTruthy LC \<longrightarrow> present EC LC ch err loading d = (LoadingView, LC))
   \<and> (err = None \<and> \<not> (loading \<and> nodeTruthy LC)
        \<longrightarrow> present EC LC ch err loading d = (SuccessView, ch d))
   \<and> present EC LC ch (error (slot s)) (isLoading (slot s)) (data (slot s)) =
       (case s of
          Failed x \<Rightarrow> (ErrorView, renderError EC x)
        | Loading \<Rightarrow> if nodeTruthy LC then (LoadingView, LC) else (SuccessView, ch JUndefined)
        | Succeeded v \<Rightarrow> (SuccessView, ch v))
   \<and> fst (present EC LC ch err loading d) = fst (present EC LC ch' err loading d')
   \<and> (url p = Some loc \<and> loc \<noteq> [] \<longrightarrow>
        Fetch E p =
          Inr (let r = useQuery E (singleOptions (fetch E) (queryOptions p) loc
                                     (methodOf p) (params p) (body p))
               in present (errorOf p) (loadingOf p) (children p) (error r) (isLoading r) (data r)))
   \<and> ((url p = None \<or> url p = Some []) \<and> urls p = Some us \<longrightarrow>
        Fetch E p =
          Inr (let rs = useQueries E (map (slotOptions (fetch E) (queryOptions p) (methodOf p)
                                            (params p) (body p)) us)
               in present (errorOf p) (loadingOf p) (children p) (aggregateError rs)
                    (aggregateLoading (waitOf p) rs) (JArr (map data rs))))
   \<and> ((url p = None \<or> url p = Some []) \<and> urls p = None \<and> queryOptions p = Some q \<longrightarrow>
        Fetch E p =
          Inr (let r = useQuery E q
               in present (errorOf p) (loadingOf p) (children p) (error r) (isLoading r) (data r)))"
  by (cases s) (auto simp: present_def Fetch_unfold fetchSingle_def fetchMulti_def fetchQuery_def
      split: option.splits)


theorem presentation_precedence_witness:
  "present (IsComponent DefaultError) (NText ''wait'') (\<lambda>d. NText (String d))
       (Some (Error ''x'')) True (JStr ''a'')
     = (ErrorView, NElem (Element DefaultError [(''error'', Err (Error ''x''))]))
   \<and> present (IsComponent DefaultError) (NText ''wait'') (\<lambda>d. NText (String d))
       None True (JStr ''a'') = (LoadingView, NText ''wait'')
   \<and> present (IsComponent DefaultError) (NText ''wait'') (\<lambda>d. NText (String d))
       None False (JStr ''a'') = (SuccessView, NText ''a'')
   \<and> present (IsComponent DefaultError) NNull (\<lambda>d. NText (String d))
       None True JUndefined = (SuccessView, NText ''undefined'')
   \<and> Fetch (engineOf [slot (Failed (Error ''x''))]) (propsOf (Some ''/a'') None None)
     = Inr (ErrorView, NElem (Element DefaultError [(''error'', Err (Error ''x''))]))
   \<and> Fetch (engineOf [slot (Succeeded (JStr ''a''))]) (propsOf None (Some [''/a'']) None)
     = Inr (SuccessView, NText ''a'')
   \<and> Fetch (engineOf [slot Loading])
        (propsOf None None (Some \<lparr> queryKey = Some [JStr ''k''], queryFn = None, rest = [] \<rparr>))
     = Inr (LoadingView, NElem (Element (Host ''div'') [(''children'', Val (JStr ''Loading...''))]))"
  using presentation_precedence [where err = "Some (Error ''x'')" and e = "Error ''x''"
      and EC = "IsComponent DefaultError" and LC = "NText ''wait''"
      and ch = "\<lambda>d. NText (String d)" and loading = True and d = "JStr ''a''"
      and E = "engineOf [slot (Failed (Error ''x''))]" and p = "propsOf (Some ''/a'') None None"]
    presentation_precedence [where err = None and EC = "IsComponent DefaultError"
      and LC = "NText ''wait''" and ch = "\<lambda>d. NText (String d)" and loading = True
      and d = "JStr ''a''" and E = "engineOf [slot (Succeeded (JStr ''a''))]"
      and p = "propsOf None (Some [''/a'']) None" and us = "[''/a'']"]
    presentation_precedence [where err = None and EC = "IsComponent DefaultError"
      and LC = "NText ''wait''" and ch = "\<lambda>d. NText (String d)" and loading = False
      and d = "JStr ''a''" and E = "engineOf [slot Loading]"
      and p = "propsOf None None
                 (Some \<lparr> queryKey = Some [JStr ''k''], queryFn = None, rest = [] \<rparr>)"
      and q = "\<lparr> queryKey = Some [JStr ''k''], queryFn = None, rest = [] \<rparr>"]
    presentation_precedence [where err = None and EC = "IsComponent DefaultError"
      and LC = NNull and ch = "\<lambda>d. NText (String d)" and loading = True and d = JUndefined]
  by (simp add: present_def engineOf_def propsOf_def errorOf_def loadingOf_def
      aggregateError_def aggregateLoading_def waitOf_def)

section \<open>The usage error\<close>

text \<open>
  C9, as amended. \<^verbatim>\<open>Fetch\<close> throws its usage error, at the call and as a thrown value
  rather than as an error view, exactly when \<^verbatim>\<open>url\<close> is absent or the empty string and
  both \<^verbatim>\<open>urls\<close> and \<^verbatim>\<open>queryOptions\<close> are absent; in every other case it returns a view.
\<close>

theorem usage_error_exactly:
  "(Fetch E p = Inl usageError
      \<longleftrightarrow> (url p = None \<or> url p = Some []) \<and> urls p = None \<and> queryOptions p = None)
   \<and> ((\<exists>view. Fetch E p = Inr view)
      \<longleftrightarrow> \<not> ((url p = None \<or> url p = Some []) \<and> urls p = None \<and> queryOptions p = None))"
  by (auto simp: Fetch_unfold split: option.splits)

theorem usage_error_exactly_witness:
  "Fetch (engineOf []) (propsOf None None None) = Inl usageError
   \<and> Fetch (engineOf []) (propsOf (Some ''/a'') None None) \<noteq> Inl usageError
   \<and> Fetch (engineOf []) (propsOf None (Some []) None) \<noteq> Inl usageError
   \<and> Fetch (engineOf [])
        (propsOf None None (Some \<lparr> queryKey = Some [JStr ''k''], queryFn = None, rest = [] \<rparr>))
       \<noteq> Inl usageError"
  using usage_error_exactly [of "engineOf []" "propsOf None None None"]
    usage_error_exactly [of "engineOf []" "propsOf (Some ''/a'') None None"]
    usage_error_exactly [of "engineOf []" "propsOf None (Some []) None"]
    usage_error_exactly [of "engineOf []"
      "propsOf None None (Some \<lparr> queryKey = Some [JStr ''k''], queryFn = None, rest = [] \<rparr>)"]
  by (simp add: propsOf_def)

text \<open>
  The claim as first stated fails: with the \<^verbatim>\<open>url\<close> prop supplied as the empty string
  and nothing else, the usage error is thrown.
\<close>

theorem empty_url_raises_usage_error:
  "url (propsOf (Some []) None None) = Some []
   \<and> Fetch (engineOf []) (propsOf (Some []) None None) = Inl usageError"
  by (simp add: Fetch_unfold propsOf_def)

section \<open>Properties of the key builder\<close>

lemma foldl_append_items:
  "foldl (\<lambda>acc item. acc @ [(key, f item)]) acc items = acc @ map (\<lambda>item. (key, f item)) items"
  by (induction items arbitrary: acc) auto

lemma appendEntry_eq:
  "appendEntry acc (k, v) =
     acc @ (if nullish v then []
            else (case v of
                    JArr items \<Rightarrow> map (\<lambda>item. (k, String item)) (filter (\<lambda>item. \<not> nullish item) items)
                  | _ \<Rightarrow> [(k, String v)]))"
  by (cases v) (simp_all add: append_def foldl_append_items)

lemma appendEntry_acc: "appendEntry acc kv = acc @ appendEntry [] kv"
proof (cases kv)
  case (Pair k v)
  show ?thesis
    unfolding Pair using appendEntry_eq [of acc k v] appendEntry_eq [of "[]" k v]
    by (simp del: appendEntry.simps)
qed

lemma foldl_appendEntry:
  "foldl appendEntry acc entries = acc @ concat (map (appendEntry []) entries)"
proof (induction entries arbitrary: acc)
  case Nil
  then show ?case by simp
next
  case (Cons kv entries)
  have "foldl appendEntry acc (kv # entries) = foldl appendEntry (appendEntry acc kv) entries"
    by simp
  also have "\<dots> = appendEntry acc kv @ concat (map (appendEntry []) entries)"
    by (rule Cons.IH)
  also have "\<dots> = acc @ appendEntry [] kv @ concat (map (appendEntry []) entries)"
    using appendEntry_acc [of acc kv] by simp
  finally show ?case by simp
qed

lemma digit_lt16: "n < 16 \<Longrightarrow> digit n \<in> set ''0123456789ABCDEF''"
  unfolding digit_def by (rule nth_mem) simp

lemma encodeByte_plain:
  assumes "x \<in> set (encodeByte c)"
  shows "x \<in> set ''+%*-._0123456789ABCDEFGHIJKLMNOPQRSTUVWXYZabcdefghijklmnopqrstuvwxyz''"
proof -
  have "(of_char c :: nat) < 256"
    by simp
  then have lt: "(of_char c :: nat) div 16 < 16" "(of_char c :: nat) mod 16 < 16"
    by arith+
  show ?thesis
    using assms digit_lt16 [OF lt(1)] digit_lt16 [OF lt(2)]
    by (auto simp: encodeByte_def unreserved_def split: if_splits)
qed

lemma urlencode_no_sep: "CHR ''&'' \<notin> set (urlencode s) \<and> CHR ''='' \<notin> set (urlencode s)"
  using encodeByte_plain by (fastforce simp: urlencode_def)

lemma count_eq_pair:
  "length (filter (\<lambda>c. c = CHR ''='') (urlencode n @ ''='' @ urlencode v)) = 1"
  using urlencode_no_sep [of n] urlencode_no_sep [of v]
  by (auto simp: filter_empty_conv)

lemma toString_count:
  "length (filter (\<lambda>c. c = CHR ''='') (toString ps)) = length ps"
proof (induction ps rule: induct_list012)
  case 1
  show ?case by (simp add: toString_def)
next
  case (2 x)
  show ?case
    using count_eq_pair [of "fst x" "snd x"] by (cases x) (simp add: toString_def)
next
  case (3 x y zs)
  then show ?case
    using count_eq_pair [of "fst x" "snd x"] by (cases x) (simp add: toString_def)
qed

text \<open>
  C4. Of the entries of the parameter object, one whose value is \<^verbatim>\<open>null\<close> or
  \<^verbatim>\<open>undefined\<close> appends nothing; one whose value is an array appends one pair per
  non-nullish element, each under the entry's key and in element order, so that
  \<^verbatim>\<open>[a, null, b]\<close> appends exactly the pair for \<open>a\<close> and then the pair for \<open>b\<close>; any
  other entry appends exactly one pair, of its key and the stringified value. The query
  string is the serialisation of the entries' contributions, concatenated in entry order,
  and holds one \<^verbatim>\<open>=\<close> for each pair contributed.
\<close>

theorem query_entries:
  "(nullish v \<longrightarrow> appendEntry acc (k, v) = acc)
   \<and> appendEntry acc (k, JArr items) =
       acc @ map (\<lambda>item. (k, String item)) (filter (\<lambda>item. \<not> nullish item) items)
   \<and> (\<not> nullish a \<and> \<not> nullish b \<longrightarrow>
        appendEntry acc (k, JArr [a, JNull, b]) = acc @ [(k, String a), (k, String b)])
   \<and> (\<not> nullish v \<and> \<not> isArray v \<longrightarrow> appendEntry acc (k, v) = acc @ [(k, String v)])
   \<and> buildQueryString (Some entries) = toString (concat (map (appendEntry []) entries))
   \<and> buildQueryString (Some (entries @ (k, v) # later)) =
       toString (concat (map (appendEntry []) entries) @ appendEntry [] (k, v)
                 @ concat (map (appendEntry []) later))
   \<and> length (filter (\<lambda>c. c = CHR ''='') (buildQueryString (Some entries)))
       = length (concat (map (appendEntry []) entries))"
proof -
  have "buildQueryString (Some es) = toString (concat (map (appendEntry []) es))" for es
    by (simp add: buildQueryString_def foldl_appendEntry)
  then show ?thesis
    by (cases v) (simp_all add: appendEntry_eq toString_count del: appendEntry.simps)
qed

theorem query_entries_witness:
  "buildQueryString
     (Some [(''a'', JArr [JStr ''x'', JNull, JStr ''y'']), (''b'', JNull), (''c'', JStr ''3'')])
     = ''a=x&a=y&c=3''"
  using query_entries [of JNull "[(''a'', ''x''), (''a'', ''y'')]" "''b''" "[JStr ''x'', JNull, JStr ''y'']"
      "JStr ''x''" "JStr ''y''"
      "[(''a'', JArr [JStr ''x'', JNull, JStr ''y'']), (''b'', JNull), (''c'', JStr ''3'')]" "[]"]
  by (simp add: toString_def urlencode_def encodeByte_def unreserved_def append_def)

section \<open>Properties of the request executor\<close>

lemma startsWith_iff: "startsWith s sub \<longleftrightarrow> (\<exists>post. s = sub @ post)"
  by (induction s sub rule: startsWith.induct) auto

lemma str_includes_iff: "str_includes s sub \<longleftrightarrow> (\<exists>pre post. s = pre @ sub @ post)"
proof (induction s)
  case Nil
  show ?case by auto
next
  case (Cons c cs)
  show ?case
  proof
    assume "str_includes (c # cs) sub"
    then consider "startsWith (c # cs) sub" | "str_includes cs sub" by auto
    then show "\<exists>pre post. c # cs = pre @ sub @ post"
    proof cases
      case 1
      then obtain post where "c # cs = sub @ post" by (auto simp: startsWith_iff)
      then have "c # cs = [] @ sub @ post" by simp
      then show ?thesis by blast
    next
      case 2
      with Cons.IH obtain pre post where "cs = pre @ sub @ post" by auto
      then have "c # cs = (c # pre) @ sub @ post" by simp
      then show ?thesis by blast
    qed
  next
    assume "\<exists>pre post. c # cs = pre @ sub @ post"
    then obtain pre post where eq: "c # cs = pre @ sub @ post" by auto
    show "str_includes (c # cs) sub"
    proof (cases pre)
      case Nil
      with eq have "startsWith (c # cs) sub" by (auto simp: startsWith_iff)
      then show ?thesis by simp
    next
      case (Cons x pre')
      with eq have "cs = pre' @ sub @ post" by simp
      with Cons.IH have "str_includes cs sub" by auto
      then show ?thesis by simp
    qed
  qed
qed

lemma notJson_iff:
  "notJson ct \<longleftrightarrow>
     ct = None \<or> (\<exists>c. ct = Some c \<and> \<not> (\<exists>pre post. c = pre @ ''application/json'' @ post))"
  by (cases ct) (auto simp: notJson_def str_includes_iff)

text \<open>
  C5, as amended. For a response \<open>r\<close> that the transport gives, the executor fails with the
  HTTP error, whose message carries the status and the body text, exactly when the status
  is outside 200 to 299. On a success status whose \<^verbatim>\<open>content-type\<close> header is missing or
  does not contain the text \<^verbatim>\<open>application/json\<close>, in that spelling, it fails with the
  content-type error, whose message carries the declared type and the body text. Otherwise
  it returns the parsed payload when the body parses as JSON, and fails with the parser's
  \<^verbatim>\<open>SyntaxError\<close> when it does not.
\<close>

theorem executor_outcomes:
  assumes "transport (fetchArgs u m ps b) = Inr r"
  shows "(makeFetchRequest transport u m ps b = Inl (HttpError (status r) (body_text r))
            \<longleftrightarrow> \<not> (200 \<le> status r \<and> status r \<le> 299))
       \<and> (ok r \<longleftrightarrow> 200 \<le> status r \<and> status r \<le> 299)
       \<and> (notJson (content_type r) \<longleftrightarrow>
            content_type r = None
            \<or> (\<exists>c. content_type r = Some c
                    \<and> \<not> (\<exists>pre post. c = pre @ ''application/json'' @ post)))
       \<and> (ok r \<and> notJson (content_type r) \<longrightarrow>
            makeFetchRequest transport u m ps b
              = Inl (UnexpectedContentTypeError (content_type r) (body_text r)))
       \<and> (ok r \<and> \<not> notJson (content_type r) \<and> body_json r = Inr payload \<longrightarrow>
            makeFetchRequest transport u m ps b = Inr payload)
       \<and> (ok r \<and> \<not> notJson (content_type r) \<and> body_json r = Inl msg \<longrightarrow>
            makeFetchRequest transport u m ps b = Inl (SyntaxError msg))"
proof -
  have "makeFetchRequest transport u m ps b = Inl (HttpError (status r) (body_text r)) \<longleftrightarrow> \<not> ok r"
    using assms
    by (auto simp: makeFetchRequest_def HttpError_def UnexpectedContentTypeError_def
        split: sum.splits)
  moreover have "ok r \<and> notJson (content_type r) \<longrightarrow>
      makeFetchRequest transport u m ps b
        = Inl (UnexpectedContentTypeError (content_type r) (body_text r))"
    using assms by (simp add: makeFetchRequest_def)
  moreover have "ok r \<and> \<not> notJson (content_type r) \<and> body_json r = Inr payload \<longrightarrow>
      makeFetchRequest transport u m ps b = Inr payload"
    using assms by (simp add: makeFetchRequest_def)
  moreover have "ok r \<and> \<not> notJson (content_type r) \<and> body_json r = Inl msg \<longrightarrow>
      makeFetchRequest transport u m ps b = Inl (SyntaxError msg)"
    using assms by (simp add: makeFetchRequest_def)
  ultimately show ?thesis
    using notJson_iff [of "content_type r"] by (simp add: ok_def)
qed

theorem executor_outcomes_witness:
  "makeFetchRequest
       (respond \<lparr> status = 404, content_type = Some ''text/plain'', body_text = ''not found'',
                  body_json = Inl ''Unexpected token'' \<rparr>)
       ''/api/users'' ''GET'' None JUndefined
     = Inl (Error ''HTTP error! status: 404, body: not found'')
   \<and> makeFetchRequest
       (respond \<lparr> status = 200, content_type = Some ''text/html'', body_text = ''<p>hi</p>'',
                  body_json = Inl ''Unexpected token'' \<rparr>)
       ''/api/users'' ''GET'' None JUndefined
     = Inl (Error ''Expected JSON response but got text/html, body: <p>hi</p>'')
   \<and> makeFetchRequest
       (respond \<lparr> status = 200, content_type = Some ''application/json; charset=utf-8'',
                  body_text = ''[1]'', body_json = Inr (JArr [JNum 1]) \<rparr>)
       ''/api/users'' ''GET'' None JUndefined
     = Inr (JArr [JNum 1])
   \<and> makeFetchRequest
       (respond \<lparr> status = 200, content_type = Some ''application/json'',
                  body_text = ''<p>'', body_json = Inl ''Unexpected token'' \<rparr>)
       ''/api/users'' ''GET'' None JUndefined
     = Inl (SyntaxError ''Unexpected token'')"
  using executor_outcomes [where transport = "respond \<lparr> status = 404, content_type = Some ''text/plain'',
          body_text = ''not found'', body_json = Inl ''Unexpected token'' \<rparr>"
        and u = "''/api/users''" and m = "''GET''" and ps = None and b = JUndefined
        and r = "\<lparr> status = 404, content_type = Some ''text/plain'', body_text = ''not found'',
                  body_json = Inl ''Unexpected token'' \<rparr>"]
    executor_outcomes [where transport = "respond \<lparr> status = 200, content_type = Some ''text/html'',
          body_text = ''<p>hi</p>'', body_json = Inl ''Unexpected token'' \<rparr>"
        and u = "''/api/users''" and m = "''GET''" and ps = None and b = JUndefined
        and r = "\<lparr> status = 200, content_type = Some ''text/html'', body_text = ''<p>hi</p>'',
                  body_json = Inl ''Unexpected token'' \<rparr>"]
    executor_outcomes [where transport = "respond \<lparr> status = 200,
          content_type = Some ''application/json; charset=utf-8'',
          body_text = ''[1]'', body_json = Inr (JArr [JNum 1]) \<rparr>"
        and u = "''/api/users''" and m = "''GET''" and ps = None and b = JUndefined
        and r = "\<lparr> status = 200, content_type = Some ''application/json; charset=utf-8'',
                  body_text = ''[1]'', body_json = Inr (JArr [JNum 1]) \<rparr>"
        and payload = "JArr [JNum 1]"]
    executor_outcomes [where transport = "respond \<lparr> status = 200,
          content_type = Some ''application/json'',
          body_text = ''<p>'', body_json = Inl ''Unexpected token'' \<rparr>"
        and u = "''/api/users''" and m = "''GET''" and ps = None and b = JUndefined
        and r = "\<lparr> status = 200, content_type = Some ''application/json'',
                  body_text = ''<p>'', body_json = Inl ''Unexpected token'' \<rparr>"
        and msg = "''Unexpected token''"]
  by (simp add: respond_def ok_def notJson_def HttpError_def UnexpectedContentTypeError_def
        showInt_def decimal.simps digit_def)

text \<open>
  The claim as first stated fails: on a success status with the content type
  \<^verbatim>\<open>application/json\<close> and a body that does not parse, no payload is returned, the
  parser's error is; the JSON content type spelled \<^verbatim>\<open>Application/JSON\<close> is refused
  although the body parses; and a \<^verbatim>\<open>text/html\<close> content type with a parameter that
  contains \<^verbatim>\<open>application/json\<close> is accepted.
\<close>

theorem json_response_edge_cases:
  "makeFetchRequest
       (respond \<lparr> status = 200, content_type = Some ''application/json'',
                  body_text = ''<p>'', body_json = Inl ''Unexpected token'' \<rparr>)
       ''/api/users'' ''GET'' None JUndefined
     = Inl (SyntaxError ''Unexpected token'')
   \<and> makeFetchRequest
       (respond \<lparr> status = 200, content_type = Some ''Application/JSON'',
                  body_text = ''[1]'', body_json = Inr (JArr [JNum 1]) \<rparr>)
       ''/api/users'' ''GET'' None JUndefined
     = Inl (Error ''Expected JSON response but got Application/JSON, body: [1]'')
   \<and> makeFetchRequest
       (respond \<lparr> status = 200, content_type = Some ''text/html; x=application/json'',
                  body_text = ''[1]'', body_json = Inr (JArr [JNum 1]) \<rparr>)
       ''/api/users'' ''GET'' None JUndefined
     = Inr (JArr [JNum 1])"
  by (simp add: makeFetchRequest_def respond_def ok_def notJson_def UnexpectedContentTypeError_def)

text \<open>
  C8, as amended. The request carries the JSON text of the body exactly when the body is
  truthy, and a truthy body always has a JSON text; when the body is absent, or is one of
  the other falsy values \<^verbatim>\<open>null\<close>, \<^verbatim>\<open>false\<close>, \<^verbatim>\<open>0\<close> and the empty string, the request
  carries no body.
\<close>

theorem body_sent_when_truthy:
  "req_body (fetchArgs u m ps b) = (if truthy b then Some (serialize b) else None)
   \<and> (truthy b \<longrightarrow> JSON_stringify b = Some (serialize b))
   \<and> (b = JUndefined \<longrightarrow> req_body (fetchArgs u m ps b) = None)
   \<and> (\<not> truthy b \<longleftrightarrow> b \<in> {JUndefined, JNull, JBool False, JNum 0, JStr []})"
  by (cases b) (auto simp: fetchArgs_def JSON_stringify_def)

theorem body_sent_when_truthy_witness:
  "req_body (fetchArgs ''/api/users'' ''POST'' None (JArr [JNum 1, JUndefined, JBool True, JObj []]))
     = Some ''[1,null,true,{}]''
   \<and> req_body (fetchArgs ''/api/users'' ''GET'' None JUndefined) = None"
  using body_sent_when_truthy [of "''/api/users''" "''POST''" None "JArr [JNum 1, JUndefined, JBool True, JObj []]"]
    body_sent_when_truthy [of "''/api/users''" "''GET''" None JUndefined]
  by (simp add: showInt_def decimal.simps digit_def)

text \<open>
  The claim as first stated fails: the body \<^verbatim>\<open>0\<close> is present and has the JSON text
  \<^verbatim>\<open>0\<close>, and the request carries no body.
\<close>

theorem falsy_body_is_dropped:
  "JSON_stringify (JNum 0) = Some ''0'' \<and> req_body (fetchArgs ''/api/count'' ''POST'' None (JNum 0)) = None"
  by (simp add: fetchArgs_def JSON_stringify_def showInt_def decimal.simps digit_def)

lemma foldl_all_nullish:
  "\<forall>(k, v)\<in>set entries. nullish v \<Longrightarrow> foldl appendEntry acc entries = acc"
  by (induction entries arbitrary: acc) auto

lemma buildQueryString_all_nullish:
  "\<forall>(k, v)\<in>set entries. nullish v \<Longrightarrow> buildQueryString (Some entries) = []"
  by (simp add: buildQueryString_def foldl_all_nullish toString_def)

lemma BASE_URL_no_mark: "CHR ''?'' \<notin> set BASE_URL"
  by (simp add: BASE_URL_def)

text \<open>
  C10, as amended. When \<^verbatim>\<open>params\<close> is given, the address is the base, the locator, a
  \<^verbatim>\<open>?\<close> and the built query string, also when that string is empty, as it is when every
  parameter value is nullish; when \<^verbatim>\<open>params\<close> is absent the address is the base and the
  locator. So for a locator that has no \<^verbatim>\<open>?\<close> of its own, the address has a \<^verbatim>\<open>?\<close>
  exactly when \<^verbatim>\<open>params\<close> is given.
\<close>

theorem address_of_request:
  "req_input (fetchArgs u m (Some entries) b) = BASE_URL @ u @ ''?'' @ buildQueryString (Some entries)
   \<and> req_input (fetchArgs u m None b) = BASE_URL @ u
   \<and> ((\<forall>(k, v)\<in>set entries. nullish v) \<longrightarrow>
        req_input (fetchArgs u m (Some entries) b) = BASE_URL @ u @ ''?'')
   \<and> (CHR ''?'' \<notin> set u \<longrightarrow>
        (CHR ''?'' \<in> set (req_input (fetchArgs u m ps b)) \<longleftrightarrow> ps \<noteq> None))"
  using buildQueryString_all_nullish [of entries] BASE_URL_no_mark
  by (cases ps) (auto simp: fetchArgs_def)

theorem address_of_request_witness:
  "req_input (fetchArgs ''/api/search'' ''GET'' (Some [(''q'', JNull), (''page'', JUndefined)]) JUndefined)
     = ''http://localhost:8000/api/search?''
   \<and> req_input (fetchArgs ''/api/search'' ''GET'' (Some []) JUndefined)
     = ''http://localhost:8000/api/search?''
   \<and> req_input (fetchArgs ''/api/search'' ''GET'' None JUndefined)
     = ''http://localhost:8000/api/search''
   \<and> req_input (fetchArgs ''/api/search'' ''GET'' (Some [(''query'', JStr ''react''), (''page'', JStr ''1'')]) JUndefined)
     = ''http://localhost:8000/api/search?query=react&page=1''"
  using address_of_request [of "''/api/search''" "''GET''" "[(''q'', JNull), (''page'', JUndefined)]" JUndefined None]
   address_of_request [of "''/api/search''" "''GET''" "[]" JUndefined "Some []"]
   address_of_request [of "''/api/search''" "''GET''" "[(''query'', JStr ''react''), (''page'', JStr ''1'')]" JUndefined]
  by (simp add: BASE_URL_def buildQueryString_def toString_def urlencode_def encodeByte_def
      unreserved_def append_def)

text \<open>
  The claim as first stated fails: a locator that brings its own query string gives an
  address with a \<^verbatim>\<open>?\<close> although \<^verbatim>\<open>params\<close> is absent.
\<close>

theorem locator_with_query_mark:
  "CHR ''?'' \<in> set (req_input (fetchArgs ''/api/search?q=react'' ''GET'' None JUndefined))"
  by (simp add: fetchArgs_def)

section \<open>Properties of the cache keys\<close>

text \<open>
  C6, as amended. The derived key is the array of the locator, the method, the parameters
  and the body, and of nothing else. The single-resource query uses the key of the caller's
  query options when they have one, and the derived key otherwise. Every slot of the
  multi-resource query uses the derived key of its own locator, whether or not the
  caller's query options have a key. These are the options that \<^verbatim>\<open>Fetch\<close> hands to the
  engine in the two modes.
\<close>

theorem cache_keys:
  "((qo = None \<or> (\<exists>q. qo = Some q \<and> queryKey q = None)) \<longrightarrow>
       queryKey (singleOptions t qo u m ps b) = Some (derivedKey u m ps b))
   \<and> (qo = Some q \<and> queryKey q = Some k \<longrightarrow> queryKey (singleOptions t qo u m ps b) = Some k)
   \<and> queryKey (slotOptions t qo m ps b u) = Some (derivedKey u m ps b)
   \<and> map queryKey (map (slotOptions t qo m ps b) us) = map (\<lambda>u. Some (derivedKey u m ps b)) us
   \<and> derivedKey u m ps b
       = [JStr u, JStr m, (case ps of None \<Rightarrow> JUndefined | Some entries \<Rightarrow> JObj entries), b]
   \<and> (url p = Some loc \<and> loc \<noteq> [] \<longrightarrow>
        Fetch E p =
          Inr (let r = useQuery E (singleOptions (fetch E) (queryOptions p) loc
                                     (methodOf p) (params p) (body p))
               in present (errorOf p) (loadingOf p) (children p) (error r) (isLoading r) (data r)))
   \<and> ((url p = None \<or> url p = Some []) \<and> urls p = Some us \<longrightarrow>
        Fetch E p =
          Inr (let rs = useQueries E (map (slotOptions (fetch E) (queryOptions p) (methodOf p)
                                            (params p) (body p)) us)
               in present (errorOf p) (loadingOf p) (children p) (aggregateError rs)
                    (aggregateLoading (waitOf p) rs) (JArr (map data rs))))"
  by (auto simp: singleOptions_def slotOptions_def derivedKey_def spread_def Fetch_unfold
      fetchSingle_def fetchMulti_def)


theorem cache_keys_witness:
  "queryKey (singleOptions (respond \<lparr> status = 200, content_type = None, body_text = [],
                                      body_json = Inr JNull \<rparr>)
      (Some \<lparr> queryKey = Some [JStr ''users''], queryFn = None, rest = [] \<rparr>)
      ''/api/users'' ''GET'' None JUndefined)
    = Some [JStr ''users'']
   \<and> queryKey (singleOptions (respond \<lparr> status = 200, content_type = None, body_text = [],
                                      body_json = Inr JNull \<rparr>)
      None ''/api/users'' ''GET'' (Some [(''page'', JStr ''1'')]) JUndefined)
    = Some [JStr ''/api/users'', JStr ''GET'', JObj [(''page'', JStr ''1'')], JUndefined]"
  using cache_keys [where qo = "Some \<lparr> queryKey = Some [JStr ''users''], queryFn = None, rest = [] \<rparr>"
      and q = "\<lparr> queryKey = Some [JStr ''users''], queryFn = None, rest = [] \<rparr>"
      and k = "[JStr ''users'']" and u = "''/api/users''" and m = "''GET''" and ps = None
      and b = JUndefined
      and t = "respond \<lparr> status = 200, content_type = None, body_text = [],
                         body_json = Inr JNull \<rparr>"]
    cache_keys [where qo = None and u = "''/api/users''" and m = "''GET''"
      and ps = "Some [(''page'', JStr ''1'')]" and b = JUndefined
      and t = "respond \<lparr> status = 200, content_type = None, body_text = [],
                         body_json = Inr JNull \<rparr>"]
  by simp

text \<open>
  The claim as first stated fails: in the multi-resource mode a slot's key is the derived
  one although the caller's query options supply the key \<^verbatim>\<open>["users"]\<close>.
\<close>

theorem explicit_key_ignored_by_aggregator:
  "queryKey (slotOptions (respond \<lparr> status = 200, content_type = None, body_text = [],
                                    body_json = Inr JNull \<rparr>)
      (Some \<lparr> queryKey = Some [JStr ''users''], queryFn = None, rest = [] \<rparr>)
      ''GET'' None JUndefined ''/api/users'')
    = Some [JStr ''/api/users'', JStr ''GET'', JUndefined, JUndefined]
   \<and> queryKey (slotOptions (respond \<lparr> status = 200, content_type = None, body_text = [],
                                    body_json = Inr JNull \<rparr>)
      (Some \<lparr> queryKey = Some [JStr ''users''], queryFn = None, rest = [] \<rparr>)
      ''GET'' None JUndefined ''/api/users'')
    \<noteq> Some [JStr ''users'']"
  by (simp add: slotOptions_def derivedKey_def spread_def)

end
